theory Spec2Isabelle
  imports Complex_Main "HOL-Library.Multiset"
begin

section \<open>Conventions of the embedding\<close>

text \<open>
  The C type \<^verbatim>\<open>float\<close> is modelled by \<^typ>\<open>real\<close>: arithmetic is exact, every
  value is finite, and rounding, overflow, infinities and NaN are outside the model.
  The C type \<^verbatim>\<open>int\<close> is modelled by \<^typ>\<open>int\<close> (no wrap-around; the sizes the
  library works on are far below \<open>2^31\<close>).
  A pointer that a function tests against \<^verbatim>\<open>NULL\<close> is an \<open>option\<close>, \<open>None\<close>
  being \<^verbatim>\<open>NULL\<close>; a pointer that the function dereferences without a test is
  the value it points to. A C array is a list; \<^verbatim>\<open>malloc\<close> is assumed to succeed.
  A function that mutates an object through a pointer returns the new object.
\<close>

section \<open>math3d.c: vectors\<close>

text \<open>\<^verbatim>\<open>FLT_EPSILON\<close>: the literal \<^verbatim>\<open>1.19209290E-07F\<close> denotes the float \<open>2^-23\<close>.\<close>

definition FLT_EPSILON :: real where
  "FLT_EPSILON = 1 / 2 ^ 23"

definition M_PI :: real where
  "M_PI = 3.14159265358979323846"

text \<open>\<^verbatim>\<open>vec3_t\<close>: Cartesian and spherical coordinates side by side.\<close>

record vec3 =
  vec_x :: real
  vec_y :: real
  vec_z :: real
  vec_r :: real
  vec_theta :: real
  vec_phi :: real

text \<open>The library function \<^verbatim>\<open>atan2f\<close> of \<^verbatim>\<open>math.h\<close>, on the reals.\<close>

definition atan2f :: "real \<Rightarrow> real \<Rightarrow> real" where
  "atan2f b a =
     (if 0 < a then arctan (b / a)
      else if a < 0 \<and> 0 \<le> b then arctan (b / a) + pi
      else if a < 0 then arctan (b / a) - pi
      else if 0 < b then pi / 2
      else if b < 0 then - (pi / 2)
      else 0)"

definition vec3_update_spherical_from_cartesian :: "vec3 \<Rightarrow> vec3" where
  "vec3_update_spherical_from_cartesian v =
     (let v1 = v\<lparr>vec_r := sqrt (vec_x v * vec_x v + vec_y v * vec_y v + vec_z v * vec_z v)\<rparr>
      in if vec_r v1 = 0 then v1\<lparr>vec_theta := 0, vec_phi := 0\<rparr>
         else
           (let v2 = v1\<lparr>vec_theta := arccos (vec_z v1 / vec_r v1),
                          vec_phi := atan2f (vec_y v1) (vec_x v1)\<rparr>
            in if vec_phi v2 < 0 then v2\<lparr>vec_phi := vec_phi v2 + 2 * M_PI\<rparr> else v2))"

definition vec3_set_cartesian :: "vec3 option \<Rightarrow> real \<Rightarrow> real \<Rightarrow> real \<Rightarrow> vec3 option" where
  "vec3_set_cartesian p a b c =
     (case p of
        None \<Rightarrow> None
      | Some v \<Rightarrow>
          Some (vec3_update_spherical_from_cartesian (v\<lparr>vec_x := a, vec_y := b, vec_z := c\<rparr>)))"

text \<open>
  \<^verbatim>\<open>vec3_create_cartesian\<close> fills a local \<^verbatim>\<open>vec3_t\<close>; the setter overwrites all six
  fields, so the indeterminate initial content \<open>uninit\<close> of the local never shows.
\<close>

definition vec3_create_cartesian :: "real \<Rightarrow> real \<Rightarrow> real \<Rightarrow> vec3" where
  "vec3_create_cartesian a b c =
     vec3_update_spherical_from_cartesian
       \<lparr>vec_x = a, vec_y = b, vec_z = c, vec_r = 0, vec_theta = 0, vec_phi = 0\<rparr>"

definition vec3_normalize :: "vec3 option \<Rightarrow> vec3 option" where
  "vec3_normalize p =
     (case p of
        None \<Rightarrow> None
      | Some v \<Rightarrow>
          (let current_r = sqrt (vec_x v * vec_x v + vec_y v * vec_y v + vec_z v * vec_z v)
           in if current_r < FLT_EPSILON
              then Some (v\<lparr>vec_x := 0, vec_y := 0, vec_z := 0,
                           vec_r := 0, vec_theta := 0, vec_phi := 0\<rparr>)
              else Some (v\<lparr>vec_x := vec_x v / current_r,
                           vec_y := vec_y v / current_r,
                           vec_z := vec_z v / current_r,
                           vec_r := 1\<rparr>)))"



section \<open>math3d.c: matrices\<close>

text \<open>
  \<^verbatim>\<open>mat4_t\<close>: sixteen floats, column-major, \<open>m[col * 4 + row]\<close>. The list has
  length 16 (\<open>mat4_ok\<close>).
\<close>

type_synonym mat4 = "real list"

definition mat4_ok :: "mat4 \<Rightarrow> bool" where
  "mat4_ok m \<longleftrightarrow> length m = 16"

text \<open>
  \<^verbatim>\<open>mat4_identity\<close> and \<^verbatim>\<open>mat4_frustum_asymmetric\<close>: \<^verbatim>\<open>memset\<close> to zero, then
  the assignments of the source.
\<close>

definition mat4_identity :: mat4 where
  "mat4_identity = (replicate 16 0)[0 := 1, 5 := 1, 10 := 1, 15 := 1]"

definition mat4_frustum_asymmetric ::
  "real \<Rightarrow> real \<Rightarrow> real \<Rightarrow> real \<Rightarrow> real \<Rightarrow> real \<Rightarrow> mat4" where
  "mat4_frustum_asymmetric l r b t n f =
     (replicate 16 0)
       [0 := (2 * n) / (r - l),
        5 := (2 * n) / (t - b),
        8 := (r + l) / (r - l),
        9 := (t + b) / (t - b),
        10 := - (f + n) / (f - n),
        11 := - 1,
        14 := - (2 * f * n) / (f - n)]"

text \<open>
  The local \<^verbatim>\<open>res\<close> gets its Cartesian fields by assignment and its spherical
  fields from \<^verbatim>\<open>_vec3_update_spherical_from_cartesian\<close>, which writes all three; the
  zeros below are overwritten.
\<close>

definition mat4_transform_point :: "mat4 \<Rightarrow> vec3 \<Rightarrow> vec3" where
  "mat4_transform_point mat p =
     (let a = vec_x p; b = vec_y p; c = vec_z p; w = 1;
          rx = mat ! 0 * a + mat ! 4 * b + mat ! 8 * c + mat ! 12 * w;
          ry = mat ! 1 * a + mat ! 5 * b + mat ! 9 * c + mat ! 13 * w;
          rz = mat ! 2 * a + mat ! 6 * b + mat ! 10 * c + mat ! 14 * w;
          res_w = mat ! 3 * a + mat ! 7 * b + mat ! 11 * c + mat ! 15 * w;
          res = \<lparr>vec_x = rx, vec_y = ry, vec_z = rz, vec_r = 0, vec_theta = 0, vec_phi = 0\<rparr>;
          res' = (if \<bar>res_w\<bar> > FLT_EPSILON \<and> \<bar>res_w - 1\<bar> > FLT_EPSILON
                  then res\<lparr>vec_x := vec_x res / res_w,
                           vec_y := vec_y res / res_w,
                           vec_z := vec_z res / res_w\<rparr>
                  else res)
      in vec3_update_spherical_from_cartesian res')"

text \<open>
  The homogeneous product of the specification: row \<open>i\<close> of the matrix applied to the
  column vector \<open>(x, y, z, 1)\<close>; entry (row, col) of a column-major matrix is
  \<open>m ! (col * 4 + row)\<close>.
\<close>

definition mat4_at :: "mat4 \<Rightarrow> nat \<Rightarrow> nat \<Rightarrow> real" where
  "mat4_at m row col = m ! (col * 4 + row)"

definition hom_row :: "mat4 \<Rightarrow> nat \<Rightarrow> vec3 \<Rightarrow> real" where
  "hom_row m i p =
     mat4_at m i 0 * vec_x p + mat4_at m i 1 * vec_y p + mat4_at m i 2 * vec_z p + mat4_at m i 3 * 1"

definition approx_eq :: "real \<Rightarrow> real \<Rightarrow> bool" where
  "approx_eq a b \<longleftrightarrow> \<bar>a - b\<bar> \<le> FLT_EPSILON"

section \<open>lighting.c\<close>

text \<open>
  \<^verbatim>\<open>light_type_t\<close> is a C enumeration with the single enumerator
  \<^verbatim>\<open>LIGHT_TYPE_DIRECTIONAL\<close> (value 0); the field can hold any integer, and the code
  compares it with the enumerator.
\<close>

definition LIGHT_TYPE_DIRECTIONAL :: int where
  "LIGHT_TYPE_DIRECTIONAL = 0"

record light =
  light_type :: int
  direction :: vec3

definition vec3_dot_product :: "vec3 \<Rightarrow> vec3 \<Rightarrow> real" where
  "vec3_dot_product v1 v2 = vec_x v1 * vec_x v2 + vec_y v1 * vec_y v2 + vec_z v1 * vec_z v2"

definition calculate_lambertian_intensity :: "vec3 \<Rightarrow> vec3 \<Rightarrow> real" where
  "calculate_lambertian_intensity surface_normal light_direction =
     max 0 (vec3_dot_product surface_normal light_direction)"

text \<open>The \<^verbatim>\<open>for\<close> loop over the indices \<open>0 .. num_lights - 1\<close>, carrying the total.\<close>

primrec lighting_loop :: "vec3 \<Rightarrow> light list \<Rightarrow> nat list \<Rightarrow> real \<Rightarrow> real" where
  "lighting_loop surface_normal ls [] total_intensity = total_intensity"
| "lighting_loop surface_normal ls (i # rest) total_intensity =
     lighting_loop surface_normal ls rest
       (if light_type (ls ! i) = LIGHT_TYPE_DIRECTIONAL
        then total_intensity + calculate_lambertian_intensity surface_normal (direction (ls ! i))
        else total_intensity)"

text \<open>
  The array \<open>lights\<close> has at least \<open>num_lights\<close> elements in every call the C
  program may make; the theorems state this where they read the array.
\<close>

definition calculate_total_lighting_intensity :: "vec3 \<Rightarrow> light list option \<Rightarrow> int \<Rightarrow> real" where
  "calculate_total_lighting_intensity surface_normal lights num_lights =
     (case lights of
        None \<Rightarrow> 0.5
      | Some ls \<Rightarrow>
          if num_lights \<le> 0 then 0.5
          else
            (let total0 = lighting_loop surface_normal ls [0..<nat num_lights] 0;
                 total1 = (if total0 > 1 then 1 else total0);
                 total2 = (if total1 < 0 then 0 else total1)
             in total2))"

section \<open>canvas.c\<close>

text \<open>
  \<^verbatim>\<open>canvas_t\<close>. The pixel buffer is a row-major list, \<open>None\<close> for a \<^verbatim>\<open>NULL\<close>
  buffer pointer. \<open>canvas_ok\<close> says that the buffer has \<open>width * height\<close> cells, as
  \<^verbatim>\<open>canvas_create\<close> allocates it.
\<close>

record canvas =
  width :: int
  height :: int
  pixels :: "real list option"
  active_viewport_radius :: real

definition canvas_ok :: "canvas \<Rightarrow> bool" where
  "canvas_ok c \<longleftrightarrow>
     0 < width c \<and> 0 < height c \<and>
     (case pixels c of None \<Rightarrow> False | Some px \<Rightarrow> length px = nat (width c * height c))"

definition canvas_is_pixel_in_circular_viewport :: "canvas option \<Rightarrow> int \<Rightarrow> int \<Rightarrow> bool" where
  "canvas_is_pixel_in_circular_viewport c px py =
     (case c of
        None \<Rightarrow> True
      | Some cv \<Rightarrow>
          if active_viewport_radius cv \<le> 0 then True
          else
            (let radius = active_viewport_radius cv;
                 center_x = real_of_int (width cv) / 2;
                 center_y = real_of_int (height cv) / 2;
                 dist_sq = (real_of_int px - center_x) * (real_of_int px - center_x)
                         + (real_of_int py - center_y) * (real_of_int py - center_y)
             in dist_sq \<le> radius * radius))"

definition canvas_create :: "int \<Rightarrow> int \<Rightarrow> canvas option" where
  "canvas_create w h =
     (if w \<le> 0 \<or> h \<le> 0 then None
      else Some \<lparr>width = w, height = h,
                  pixels = Some (replicate (nat (w * h)) 0),
                  active_viewport_radius = 0\<rparr>)"

definition canvas_set_circular_viewport :: "canvas option \<Rightarrow> real \<Rightarrow> canvas option" where
  "canvas_set_circular_viewport c radius =
     (case c of None \<Rightarrow> None | Some cv \<Rightarrow> Some (cv\<lparr>active_viewport_radius := radius\<rparr>))"

text \<open>The loop of \<^verbatim>\<open>canvas_clear\<close>: \<open>pixels[i] = intensity\<close> for each index in turn.\<close>

primrec clear_loop :: "real \<Rightarrow> nat list \<Rightarrow> real list \<Rightarrow> real list" where
  "clear_loop intensity [] px = px"
| "clear_loop intensity (i # rest) px = clear_loop intensity rest (px[i := intensity])"

definition canvas_clear :: "canvas option \<Rightarrow> real \<Rightarrow> canvas option" where
  "canvas_clear c intensity =
     (case c of
        None \<Rightarrow> None
      | Some cv \<Rightarrow>
          (case pixels cv of
             None \<Rightarrow> Some cv
           | Some px \<Rightarrow>
               Some (cv\<lparr>pixels :=
                 Some (clear_loop intensity [0..<nat (width cv * height cv)] px)\<rparr>)))"

text \<open>
  One iteration of the 2x2 neighbourhood loop of \<^verbatim>\<open>set_pixel_f\<close>, for the offsets
  \<open>i\<close> (x) and \<open>j\<close> (y): bounds test, viewport test, weight, additive update, clamp.
\<close>

definition set_pixel_cell ::
  "canvas \<Rightarrow> int \<Rightarrow> int \<Rightarrow> real \<Rightarrow> real \<Rightarrow> real \<Rightarrow> real list \<Rightarrow> int \<times> int \<Rightarrow> real list" where
  "set_pixel_cell cv x_int y_int fx fy intensity px ji =
     (let j = fst ji; i = snd ji;
          current_x = x_int + i;
          current_y = y_int + j
      in if current_x \<ge> 0 \<and> current_x < width cv \<and> current_y \<ge> 0 \<and> current_y < height cv
         then
           if \<not> canvas_is_pixel_in_circular_viewport (Some cv) current_x current_y then px
           else
             (let weight_x = (if i = 0 then 1 - fx else fx);
                  weight_y = (if j = 0 then 1 - fy else fy);
                  weight = weight_x * weight_y;
                  pixel_index = nat (current_y * width cv + current_x);
                  px1 = px[pixel_index := px ! pixel_index + intensity * weight]
              in px1[pixel_index := max 0 (min 1 (px1 ! pixel_index))])
         else px)"

definition set_pixel_f :: "canvas option \<Rightarrow> real \<Rightarrow> real \<Rightarrow> real \<Rightarrow> canvas option" where
  "set_pixel_f c a b intensity0 =
     (case c of
        None \<Rightarrow> None
      | Some cv \<Rightarrow>
          (case pixels cv of
             None \<Rightarrow> Some cv
           | Some px \<Rightarrow>
               (let intensity = max 0 (min 1 intensity0);
                    x_int = \<lfloor>a\<rfloor>;
                    y_int = \<lfloor>b\<rfloor>;
                    fx = a - real_of_int x_int;
                    fy = b - real_of_int y_int
                in Some (cv\<lparr>pixels :=
                     Some (foldl (set_pixel_cell cv x_int y_int fx fy intensity) px
                             [(0, 0), (0, 1), (1, 0), (1, 1)])\<rparr>))))"

text \<open>
  The values of the loop variable of \<^verbatim>\<open>for (float t = lo; t <= hi; t += 0.5f)\<close>.
\<close>

function half_step_range :: "real \<Rightarrow> real \<Rightarrow> real list" where
  "half_step_range t hi = (if t \<le> hi then t # half_step_range (t + 0.5) hi else [])"
  by pat_completeness auto
termination
proof (relation "measure (\<lambda>(t, hi). nat (\<lceil>(hi - t) * 2\<rceil> + 1))")
  show "wf (measure (\<lambda>(t, hi). nat (\<lceil>(hi - t) * 2\<rceil> + 1)))" by simp
next
  fix t hi :: real
  assume le: "t \<le> hi"
  have eq: "(hi - (t + 0.5)) * 2 = (hi - t) * 2 - 1"
    by (simp add: algebra_simps)
  have step: "\<lceil>(hi - (t + 0.5)) * 2\<rceil> = \<lceil>(hi - t) * 2\<rceil> - 1"
    unfolding eq by (rule ceiling_diff_one)
  have "0 \<le> (hi - t) * 2" using le by simp
  then have nonneg: "0 \<le> \<lceil>(hi - t) * 2\<rceil>"
    by (simp only: zero_le_ceiling)
  have "nat (\<lceil>(hi - (t + 0.5)) * 2\<rceil> + 1) < nat (\<lceil>(hi - t) * 2\<rceil> + 1)"
    unfolding step using nonneg by linarith
  then show "((t + 0.5, hi), (t, hi)) \<in> measure (\<lambda>(t, hi). nat (\<lceil>(hi - t) * 2\<rceil> + 1))"
    by (simp only: in_measure split_conv)
qed

declare half_step_range.simps [simp del]

text \<open>
  The offsets at which the single-point branch (\<open>steps = 0\<close>) calls
  \<^verbatim>\<open>set_pixel_f\<close>: the outer loop runs over \<open>ty\<close>, the inner over \<open>tx\<close>, and the
  call is guarded by the circular-brush test.
\<close>

definition point_brush :: "real \<Rightarrow> (real \<times> real) list" where
  "point_brush half_thick =
     concat (map (\<lambda>ty.
        map (\<lambda>tx. (tx, ty))
          (filter (\<lambda>tx. tx * tx + ty * ty \<le> half_thick * half_thick)
             (half_step_range (- half_thick) half_thick)))
       (half_step_range (- half_thick) half_thick))"

text \<open>
  The offsets of the brush in the walk (\<open>steps > 0\<close>): the same two loops, with no
  test inside (the circular condition is commented out in the source).
\<close>

definition line_brush :: "real \<Rightarrow> (real \<times> real) list" where
  "line_brush half_thick =
     concat (map (\<lambda>brush_y.
        map (\<lambda>brush_x. (brush_x, brush_y)) (half_step_range (- half_thick) half_thick))
       (half_step_range (- half_thick) half_thick))"

text \<open>
  The walk \<^verbatim>\<open>for (i = 0; i <= steps; ++i)\<close>: the first argument counts the
  iterations left; each iteration stamps the brush at \<open>(x, y)\<close> and advances.
\<close>

fun dda_walk :: "nat \<Rightarrow> real \<Rightarrow> real \<Rightarrow> real \<Rightarrow> real \<Rightarrow> real \<Rightarrow> (real \<times> real) list" where
  "dda_walk 0 a b x_increment y_increment half_thick = []"
| "dda_walk (Suc k) a b x_increment y_increment half_thick =
     map (\<lambda>(brush_x, brush_y). (a + brush_x, b + brush_y)) (line_brush half_thick)
     @ dda_walk k (a + x_increment) (b + y_increment) x_increment y_increment half_thick"

text \<open>
  The calls \<open>set_pixel_f(canvas, x, y, clamped_intensity)\<close> that \<^verbatim>\<open>draw_line_f\<close>
  makes, in order, as triples \<open>(x, y, clamped_intensity)\<close>. The cast \<open>(int)fabsf(d)\<close>
  truncates; on a non-negative value this is the floor.
\<close>

definition draw_line_f_calls ::
  "real \<Rightarrow> real \<Rightarrow> real \<Rightarrow> real \<Rightarrow> real \<Rightarrow> real \<Rightarrow> (real \<times> real \<times> real) list" where
  "draw_line_f_calls x0 y0 x1 y1 thickness line_intensity =
     (let clamped_intensity = max 0 (min 1 line_intensity)
      in if clamped_intensity < FLT_EPSILON then []
         else
           (let dx = x1 - x0; dy = y1 - y0;
                steps = (if \<bar>dx\<bar> > \<bar>dy\<bar> then \<lfloor>\<bar>dx\<bar>\<rfloor> else \<lfloor>\<bar>dy\<bar>\<rfloor>)
            in if steps = 0
               then
                 (let half_thick = thickness / 2
                  in map (\<lambda>(tx, ty). (x0 + tx, y0 + ty, clamped_intensity))
                       (point_brush half_thick))
               else
                 (let x_increment = dx / real_of_int steps;
                      y_increment = dy / real_of_int steps;
                      half_thick = max 0.5 (thickness / 2)
                  in map (\<lambda>(a, b). (a, b, clamped_intensity))
                       (dda_walk (nat (steps + 1)) x0 y0 x_increment y_increment half_thick))))"

definition draw_line_f ::
  "canvas option \<Rightarrow> real \<Rightarrow> real \<Rightarrow> real \<Rightarrow> real \<Rightarrow> real \<Rightarrow> real \<Rightarrow> canvas option" where
  "draw_line_f c x0 y0 x1 y1 thickness line_intensity =
     (case c of
        None \<Rightarrow> None
      | Some cv \<Rightarrow>
          (case pixels cv of
             None \<Rightarrow> Some cv
           | Some px \<Rightarrow>
               foldl (\<lambda>c' (a, b, i). set_pixel_f c' a b i) (Some cv)
                 (draw_line_f_calls x0 y0 x1 y1 thickness line_intensity)))"

text \<open>
  Notions used to state the properties of the canvas: the stored intensities all lie
  in \<open>[0, 1]\<close>; the sub-pixel grid \<open>-h, -h + 0.5, ...\<close> up to \<open>h\<close>.
\<close>

definition pixels_in_unit_range :: "canvas \<Rightarrow> bool" where
  "pixels_in_unit_range c \<longleftrightarrow>
     (case pixels c of None \<Rightarrow> True | Some px \<Rightarrow> list_all (\<lambda>v. 0 \<le> v \<and> v \<le> 1) px)"


section \<open>renderer.c\<close>

record model =
  vertices :: "vec3 list option"
  num_vertices :: int
  edges :: "int list option"
  num_edges :: int

record projected_vertex =
  position_screen :: vec3
  is_clipped :: int

text \<open>
  \<^verbatim>\<open>project_vertex\<close>. The local \<^verbatim>\<open>pv\<close> is not initialised by the source; \<open>uninit\<close>
  stands for the indeterminate content of its \<^verbatim>\<open>position_screen\<close>, which the early
  return leaves in the spherical fields. The address of a local is never \<^verbatim>\<open>NULL\<close>,
  so the call of \<^verbatim>\<open>vec3_set_cartesian\<close> always yields the updated vector.
\<close>

definition project_vertex ::
  "vec3 \<Rightarrow> vec3 \<Rightarrow> mat4 \<Rightarrow> mat4 \<Rightarrow> mat4 \<Rightarrow> int \<Rightarrow> int \<Rightarrow> projected_vertex" where
  "project_vertex uninit local_vertex model_matrix view_matrix projection_matrix
       screen_width screen_height =
     (let world_pos = mat4_transform_point model_matrix local_vertex;
          camera_pos = mat4_transform_point view_matrix world_pos;
          a = vec_x camera_pos; b = vec_y camera_pos; z_cam = vec_z camera_pos;
          clip_x = projection_matrix ! 0 * a + projection_matrix ! 4 * b
                 + projection_matrix ! 8 * z_cam + projection_matrix ! 12;
          clip_y = projection_matrix ! 1 * a + projection_matrix ! 5 * b
                 + projection_matrix ! 9 * z_cam + projection_matrix ! 13;
          clip_z = projection_matrix ! 2 * a + projection_matrix ! 6 * b
                 + projection_matrix ! 10 * z_cam + projection_matrix ! 14;
          w_clip = projection_matrix ! 3 * a + projection_matrix ! 7 * b
                 + projection_matrix ! 11 * z_cam + projection_matrix ! 15;
          ps = uninit\<lparr>vec_z := z_cam\<rparr>
      in if w_clip < FLT_EPSILON
         then \<lparr>position_screen = ps\<lparr>vec_x := - 10000, vec_y := - 10000\<rparr>, is_clipped = 1\<rparr>
         else
           (let ndc_x = clip_x / w_clip;
                ndc_y = clip_y / w_clip;
                ndc_z = clip_z / w_clip;
                clipped = (if ndc_x < - 1 \<or> ndc_x > 1 \<or> ndc_y < - 1 \<or> ndc_y > 1
                              \<or> ndc_z < - 1 \<or> ndc_z > 1
                           then 2 else 0);
                ps1 = ps\<lparr>vec_x := (ndc_x + 1) * 0.5 * real_of_int screen_width,
                          vec_y := (1 - ndc_y) * 0.5 * real_of_int screen_height\<rparr>
            in \<lparr>position_screen =
                  (case vec3_set_cartesian (Some ps1) (vec_x ps1) (vec_y ps1) (vec_z ps1) of
                     Some v \<Rightarrow> v | None \<Rightarrow> ps1),
                is_clipped = clipped\<rparr>))"

text \<open>
  The intermediate values of \<^verbatim>\<open>project_vertex\<close>, named for the statements below:
  the camera-space position, the four clip-space coordinates (row \<open>i\<close> of the
  projection matrix applied to the camera-space point with \<open>w = 1\<close>), and the
  test on the normalised device coordinates.
\<close>

definition camera_pos :: "vec3 \<Rightarrow> mat4 \<Rightarrow> mat4 \<Rightarrow> vec3" where
  "camera_pos local_vertex model_matrix view_matrix =
     mat4_transform_point view_matrix (mat4_transform_point model_matrix local_vertex)"

definition clip_coord :: "mat4 \<Rightarrow> nat \<Rightarrow> vec3 \<Rightarrow> real" where
  "clip_coord projection_matrix i cam =
     projection_matrix ! i * vec_x cam + projection_matrix ! (i + 4) * vec_y cam
     + projection_matrix ! (i + 8) * vec_z cam + projection_matrix ! (i + 12)"

definition clip_w :: "vec3 \<Rightarrow> mat4 \<Rightarrow> mat4 \<Rightarrow> mat4 \<Rightarrow> real" where
  "clip_w local_vertex model_matrix view_matrix projection_matrix =
     clip_coord projection_matrix 3 (camera_pos local_vertex model_matrix view_matrix)"

definition ndc_outside :: "vec3 \<Rightarrow> mat4 \<Rightarrow> mat4 \<Rightarrow> mat4 \<Rightarrow> bool" where
  "ndc_outside local_vertex model_matrix view_matrix projection_matrix \<longleftrightarrow>
     (let cam = camera_pos local_vertex model_matrix view_matrix;
          w = clip_coord projection_matrix 3 cam;
          ndc_x = clip_coord projection_matrix 0 cam / w;
          ndc_y = clip_coord projection_matrix 1 cam / w;
          ndc_z = clip_coord projection_matrix 2 cam / w
      in ndc_x < - 1 \<or> ndc_x > 1 \<or> ndc_y < - 1 \<or> ndc_y > 1 \<or> ndc_z < - 1 \<or> ndc_z > 1)"

record renderable_edge =
  v0 :: projected_vertex
  v1 :: projected_vertex
  avg_z :: real
  original_edge_index :: int

definition compare_renderable_edges :: "renderable_edge \<Rightarrow> renderable_edge \<Rightarrow> int" where
  "compare_renderable_edges edge_a edge_b =
     (if avg_z edge_a < avg_z edge_b then 1
      else if avg_z edge_a > avg_z edge_b then - 1
      else 0)"

text \<open>
  The C library's \<^verbatim>\<open>qsort\<close> puts the array into ascending order of the comparison
  function: an element for which the function returns a positive number against
  another one comes after it. The order of elements that compare equal is
  unspecified in C; the model is an insertion sort, which keeps their order.
\<close>

primrec qsort_insert :: "('a \<Rightarrow> 'a \<Rightarrow> int) \<Rightarrow> 'a \<Rightarrow> 'a list \<Rightarrow> 'a list" where
  "qsort_insert cmp e [] = [e]"
| "qsort_insert cmp e (y # ys) =
     (if cmp e y \<le> 0 then e # y # ys else y # qsort_insert cmp e ys)"

primrec qsort :: "('a \<Rightarrow> 'a \<Rightarrow> int) \<Rightarrow> 'a list \<Rightarrow> 'a list" where
  "qsort cmp [] = []"
| "qsort cmp (e # es) = qsort_insert cmp e (qsort cmp es)"

text \<open>
  The second loop of \<^verbatim>\<open>render_wireframe\<close>, over the edge numbers: an edge with an
  index out of range is skipped with a warning, an edge with an endpoint whose
  \<open>is_clipped\<close> is 1 is skipped, every other edge is appended to
  \<^verbatim>\<open>edges_to_render\<close>.
\<close>

primrec collect_edges ::
  "projected_vertex list \<Rightarrow> int \<Rightarrow> int list \<Rightarrow> nat list \<Rightarrow> renderable_edge list
     \<Rightarrow> renderable_edge list" where
  "collect_edges projected_vertices nv es [] edges_to_render = edges_to_render"
| "collect_edges projected_vertices nv es (i # rest) edges_to_render =
     (let idx0 = es ! (i * 2 + 0);
          idx1 = es ! (i * 2 + 1)
      in if idx0 < 0 \<or> idx0 \<ge> nv \<or> idx1 < 0 \<or> idx1 \<ge> nv
         then collect_edges projected_vertices nv es rest edges_to_render
         else
           (let pv0 = projected_vertices ! nat idx0;
                pv1 = projected_vertices ! nat idx1
            in if is_clipped pv0 = 1 \<or> is_clipped pv1 = 1
               then collect_edges projected_vertices nv es rest edges_to_render
               else collect_edges projected_vertices nv es rest
                      (edges_to_render @
                         [\<lparr>v0 = pv0, v1 = pv1,
                           avg_z = (vec_z (position_screen pv0) + vec_z (position_screen pv1)) * 0.5,
                           original_edge_index = int i\<rparr>])))"

text \<open>
  The body of that loop in two parts, for the statements below: whether edge number
  \<open>i\<close> passes both tests, and the entry appended for it.
\<close>

definition edge_kept :: "projected_vertex list \<Rightarrow> int \<Rightarrow> int list \<Rightarrow> nat \<Rightarrow> bool" where
  "edge_kept projected_vertices nv es i \<longleftrightarrow>
     \<not> (es ! (i * 2 + 0) < 0 \<or> es ! (i * 2 + 0) \<ge> nv
        \<or> es ! (i * 2 + 1) < 0 \<or> es ! (i * 2 + 1) \<ge> nv)
     \<and> \<not> (is_clipped (projected_vertices ! nat (es ! (i * 2 + 0))) = 1
          \<or> is_clipped (projected_vertices ! nat (es ! (i * 2 + 1))) = 1)"

definition edge_entry :: "projected_vertex list \<Rightarrow> int list \<Rightarrow> nat \<Rightarrow> renderable_edge" where
  "edge_entry projected_vertices es i =
     \<lparr>v0 = projected_vertices ! nat (es ! (i * 2 + 0)),
      v1 = projected_vertices ! nat (es ! (i * 2 + 1)),
      avg_z = (vec_z (position_screen (projected_vertices ! nat (es ! (i * 2 + 0))))
             + vec_z (position_screen (projected_vertices ! nat (es ! (i * 2 + 1))))) * 0.5,
      original_edge_index = int i\<rparr>"

text \<open>The arguments of one call of \<^verbatim>\<open>draw_line_f\<close>, the canvas apart.\<close>

record line_call =
  lc_x0 :: real
  lc_y0 :: real
  lc_x1 :: real
  lc_y1 :: real
  lc_thickness :: real
  lc_intensity :: real

text \<open>
  The body of the third loop for one sorted edge: \<open>None\<close> when the test on the two
  \<open>is_clipped\<close> flags fails and nothing is drawn, otherwise the arguments passed to
  \<^verbatim>\<open>draw_line_f\<close>. The local \<^verbatim>\<open>edge_dir_world\<close> has its Cartesian fields assigned
  and the others left as they were (\<open>uninit\<close>).
\<close>

definition edge_draw_call ::
  "vec3 \<Rightarrow> vec3 list \<Rightarrow> int list \<Rightarrow> mat4 \<Rightarrow> light list option \<Rightarrow> int \<Rightarrow> real
     \<Rightarrow> renderable_edge \<Rightarrow> line_call option" where
  "edge_draw_call uninit vs es model_matrix lights num_lights line_thickness edge =
     (if is_clipped (v0 edge) = 0 \<and> is_clipped (v1 edge) = 0
      then
        (let line_intensity =
               (if lights \<noteq> None \<and> num_lights > 0
                then
                  (let v0_world = mat4_transform_point model_matrix
                         (vs ! nat (es ! nat (original_edge_index edge * 2 + 0)));
                       v1_world = mat4_transform_point model_matrix
                         (vs ! nat (es ! nat (original_edge_index edge * 2 + 1)));
                       edge_dir_world = uninit\<lparr>vec_x := vec_x v1_world - vec_x v0_world,
                                               vec_y := vec_y v1_world - vec_y v0_world,
                                               vec_z := vec_z v1_world - vec_z v0_world\<rparr>;
                       edge_dir_normalized =
                         (case vec3_normalize (Some edge_dir_world) of
                            Some v \<Rightarrow> v | None \<Rightarrow> edge_dir_world)
                   in calculate_total_lighting_intensity edge_dir_normalized lights num_lights)
                else 1)
         in Some \<lparr>lc_x0 = vec_x (position_screen (v0 edge)),
                  lc_y0 = vec_y (position_screen (v0 edge)),
                  lc_x1 = vec_x (position_screen (v1 edge)),
                  lc_y1 = vec_y (position_screen (v1 edge)),
                  lc_thickness = line_thickness,
                  lc_intensity = line_intensity\<rparr>)
      else None)"

definition apply_line_call :: "canvas option \<Rightarrow> line_call \<Rightarrow> canvas option" where
  "apply_line_call c d =
     draw_line_f c (lc_x0 d) (lc_y0 d) (lc_x1 d) (lc_y1 d) (lc_thickness d) (lc_intensity d)"

primrec draw_loop ::
  "vec3 \<Rightarrow> vec3 list \<Rightarrow> int list \<Rightarrow> mat4 \<Rightarrow> light list option \<Rightarrow> int \<Rightarrow> real
     \<Rightarrow> renderable_edge list \<Rightarrow> canvas option \<Rightarrow> canvas option" where
  "draw_loop uninit vs es model_matrix lights num_lights line_thickness [] c = c"
| "draw_loop uninit vs es model_matrix lights num_lights line_thickness (edge # rest) c =
     draw_loop uninit vs es model_matrix lights num_lights line_thickness rest
       (case edge_draw_call uninit vs es model_matrix lights num_lights line_thickness edge of
          None \<Rightarrow> c
        | Some d \<Rightarrow> apply_line_call c d)"

text \<open>
  The array \<^verbatim>\<open>edges_to_render\<close> as the second loop leaves it, before the sort:
  the first loop projects every vertex, the second collects the edges.
\<close>

definition renderable_edges ::
  "vec3 \<Rightarrow> canvas \<Rightarrow> vec3 list \<Rightarrow> int \<Rightarrow> int list \<Rightarrow> int \<Rightarrow> mat4 \<Rightarrow> mat4 \<Rightarrow> mat4
     \<Rightarrow> renderable_edge list" where
  "renderable_edges uninit cv vs nv es ne model_matrix view_matrix projection_matrix =
     (let projected_vertices =
            map (\<lambda>i. project_vertex uninit (vs ! i) model_matrix view_matrix projection_matrix
                        (width cv) (height cv))
              [0..<nat nv]
      in collect_edges projected_vertices nv es [0..<nat ne] [])"

definition render_wireframe ::
  "vec3 \<Rightarrow> canvas option \<Rightarrow> model option \<Rightarrow> mat4 option \<Rightarrow> mat4 option \<Rightarrow> mat4 option
     \<Rightarrow> light list option \<Rightarrow> int \<Rightarrow> real \<Rightarrow> real \<Rightarrow> canvas option" where
  "render_wireframe uninit c mdl model_matrix view_matrix projection_matrix lights num_lights
       viewport_radius_param line_thickness =
     (case (c, mdl, model_matrix, view_matrix, projection_matrix) of
        (Some cv, Some md, Some mm, Some vm, Some pm) \<Rightarrow>
          (case (vertices md, edges md) of
             (Some vs, Some es) \<Rightarrow>
               if num_vertices md = 0 \<or> num_edges md = 0 then c
               else
                 (let c1 = canvas_set_circular_viewport c viewport_radius_param;
                      edges_to_render =
                        renderable_edges uninit cv vs (num_vertices md) es (num_edges md) mm vm pm;
                      sorted_edges = qsort compare_renderable_edges edges_to_render
                  in draw_loop uninit vs es mm lights num_lights line_thickness sorted_edges c1)
           | _ \<Rightarrow> c)
      | _ \<Rightarrow> c)"

text \<open>
  The calls of \<^verbatim>\<open>draw_line_f\<close> that \<^verbatim>\<open>render_wireframe\<close> makes on valid arguments,
  in order.
\<close>

definition wireframe_line_calls ::
  "vec3 \<Rightarrow> canvas \<Rightarrow> vec3 list \<Rightarrow> int \<Rightarrow> int list \<Rightarrow> int \<Rightarrow> mat4 \<Rightarrow> mat4 \<Rightarrow> mat4
     \<Rightarrow> light list option \<Rightarrow> int \<Rightarrow> real \<Rightarrow> line_call list" where
  "wireframe_line_calls uninit cv vs nv es ne model_matrix view_matrix projection_matrix
       lights num_lights line_thickness =
     List.map_filter (edge_draw_call uninit vs es model_matrix lights num_lights line_thickness)
       (qsort compare_renderable_edges
          (renderable_edges uninit cv vs nv es ne model_matrix view_matrix projection_matrix))"


section \<open>obj_loader.c\<close>























section \<open>Example scenes\<close>

text \<open>
  Concrete inputs for the renderer: a fresh 4x4 canvas, identity model and view
  matrices, the frustum \<open>[-1, 1] x [-1, 1]\<close> with near plane 1 and far plane 9, and
  an arbitrary content for uninitialised locals. Camera space looks down \<open>-z\<close>:
  the clip-space \<open>w\<close> of a point is \<open>- z\<close>.
\<close>

definition scene_canvas :: canvas where
  "scene_canvas = \<lparr>width = 4, height = 4, pixels = Some (replicate 16 0),
                    active_viewport_radius = 0\<rparr>"

definition scene_projection :: mat4 where
  "scene_projection = mat4_frustum_asymmetric (- 1) 1 (- 1) 1 1 9"

definition scene_uninit :: vec3 where
  "scene_uninit = \<lparr>vec_x = 7, vec_y = 7, vec_z = 7, vec_r = 7, vec_theta = 7, vec_phi = 7\<rparr>"

text \<open>Two edges in front of the camera: edge 0 at depth \<open>z = -5\<close>, edge 1 at \<open>z = -2\<close>.\<close>

definition depth_scene :: model where
  "depth_scene =
     \<lparr>vertices = Some [vec3_create_cartesian 0 0 (- 5), vec3_create_cartesian 1 0 (- 5),
                        vec3_create_cartesian 0 0 (- 2), vec3_create_cartesian 1 0 (- 2)],
      num_vertices = 4,
      edges = Some [0, 1, 2, 3],
      num_edges = 2\<rparr>"


text \<open>One edge whose second endpoint is in front of the camera and above the frustum.\<close>

definition tall_scene :: model where
  "tall_scene =
     \<lparr>vertices = Some [vec3_create_cartesian 0 0 (- 2), vec3_create_cartesian 0 7 (- 2)],
      num_vertices = 2,
      edges = Some [0, 1],
      num_edges = 1\<rparr>"

text \<open>
  Edge 0 in front of the camera; edge 1 from a visible vertex to a vertex behind
  the camera (\<open>z = 1\<close>).
\<close>

definition behind_scene :: model where
  "behind_scene =
     \<lparr>vertices = Some [vec3_create_cartesian 0 0 (- 2), vec3_create_cartesian 1 0 (- 2),
                        vec3_create_cartesian 0 0 1],
      num_vertices = 3,
      edges = Some [0, 1, 0, 2],
      num_edges = 2\<rparr>"

definition scene_light :: light where
  "scene_light = \<lparr>light_type = LIGHT_TYPE_DIRECTIONAL,
                   direction = vec3_create_cartesian 1 0 0\<rparr>"

section \<open>Properties of the vector and matrix functions\<close>



lemma update_spherical_x [simp]: "vec_x (vec3_update_spherical_from_cartesian v) = vec_x v"
  by (simp add: vec3_update_spherical_from_cartesian_def Let_def)

lemma update_spherical_y [simp]: "vec_y (vec3_update_spherical_from_cartesian v) = vec_y v"
  by (simp add: vec3_update_spherical_from_cartesian_def Let_def)

lemma update_spherical_z [simp]: "vec_z (vec3_update_spherical_from_cartesian v) = vec_z v"
  by (simp add: vec3_update_spherical_from_cartesian_def Let_def)










lemma mat4_transform_point_x:
  "vec_x (mat4_transform_point m p) =
     (if \<bar>hom_row m 3 p\<bar> > FLT_EPSILON \<and> \<bar>hom_row m 3 p - 1\<bar> > FLT_EPSILON
      then hom_row m 0 p / hom_row m 3 p else hom_row m 0 p)"
  by (simp add: mat4_transform_point_def hom_row_def mat4_at_def Let_def)

lemma mat4_transform_point_y:
  "vec_y (mat4_transform_point m p) =
     (if \<bar>hom_row m 3 p\<bar> > FLT_EPSILON \<and> \<bar>hom_row m 3 p - 1\<bar> > FLT_EPSILON
      then hom_row m 1 p / hom_row m 3 p else hom_row m 1 p)"
  by (simp add: mat4_transform_point_def hom_row_def mat4_at_def Let_def)

lemma mat4_transform_point_z:
  "vec_z (mat4_transform_point m p) =
     (if \<bar>hom_row m 3 p\<bar> > FLT_EPSILON \<and> \<bar>hom_row m 3 p - 1\<bar> > FLT_EPSILON
      then hom_row m 2 p / hom_row m 3 p else hom_row m 2 p)"
  by (simp add: mat4_transform_point_def hom_row_def mat4_at_def Let_def numeral_2_eq_2)

text \<open>
  C7. \<^verbatim>\<open>mat4_transform_point\<close> computes the homogeneous product of the matrix with
  \<open>(x, y, z, 1)\<close>; the three components are divided by the resulting \<open>w\<close> exactly when
  \<open>w\<close> is neither within \<open>FLT_EPSILON\<close> of 0 nor within \<open>FLT_EPSILON\<close> of 1, and
  are returned undivided otherwise.
\<close>

theorem mat4_transform_point_divide:
  "(\<not> approx_eq (hom_row m 3 p) 0 \<and> \<not> approx_eq (hom_row m 3 p) 1 \<longrightarrow>
      vec_x (mat4_transform_point m p) = hom_row m 0 p / hom_row m 3 p
    \<and> vec_y (mat4_transform_point m p) = hom_row m 1 p / hom_row m 3 p
    \<and> vec_z (mat4_transform_point m p) = hom_row m 2 p / hom_row m 3 p)
   \<and> (approx_eq (hom_row m 3 p) 0 \<or> approx_eq (hom_row m 3 p) 1 \<longrightarrow>
      vec_x (mat4_transform_point m p) = hom_row m 0 p
    \<and> vec_y (mat4_transform_point m p) = hom_row m 1 p
    \<and> vec_z (mat4_transform_point m p) = hom_row m 2 p)"
  unfolding mat4_transform_point_x mat4_transform_point_y mat4_transform_point_z approx_eq_def
  by auto

text \<open>
  Two inputs for C7: a projective matrix with \<open>w = 2\<close> (divided), and the same point
  under the identity, \<open>w = 1\<close> (undivided).
\<close>

theorem mat4_transform_point_divide_witness:
  "\<not> approx_eq (hom_row [1,0,0,0, 0,1,0,0, 0,0,1,0, 0,0,0,2] 3
         \<lparr>vec_x = 4, vec_y = 6, vec_z = 8, vec_r = 0, vec_theta = 0, vec_phi = 0\<rparr>) 0
   \<and> \<not> approx_eq (hom_row [1,0,0,0, 0,1,0,0, 0,0,1,0, 0,0,0,2] 3
         \<lparr>vec_x = 4, vec_y = 6, vec_z = 8, vec_r = 0, vec_theta = 0, vec_phi = 0\<rparr>) 1
   \<and> vec_x (mat4_transform_point [1,0,0,0, 0,1,0,0, 0,0,1,0, 0,0,0,2]
         \<lparr>vec_x = 4, vec_y = 6, vec_z = 8, vec_r = 0, vec_theta = 0, vec_phi = 0\<rparr>) = 2
   \<and> approx_eq (hom_row [1,0,0,0, 0,1,0,0, 0,0,1,0, 0,0,0,1] 3
         \<lparr>vec_x = 4, vec_y = 6, vec_z = 8, vec_r = 0, vec_theta = 0, vec_phi = 0\<rparr>) 1
   \<and> vec_x (mat4_transform_point [1,0,0,0, 0,1,0,0, 0,0,1,0, 0,0,0,1]
         \<lparr>vec_x = 4, vec_y = 6, vec_z = 8, vec_r = 0, vec_theta = 0, vec_phi = 0\<rparr>) = 4"
  using
    mat4_transform_point_divide [of "[1,0,0,0, 0,1,0,0, 0,0,1,0, 0,0,0,2]"
      "\<lparr>vec_x = 4, vec_y = 6, vec_z = 8, vec_r = 0, vec_theta = 0, vec_phi = 0\<rparr>"]
    mat4_transform_point_divide [of "[1,0,0,0, 0,1,0,0, 0,0,1,0, 0,0,0,1]"
      "\<lparr>vec_x = 4, vec_y = 6, vec_z = 8, vec_r = 0, vec_theta = 0, vec_phi = 0\<rparr>"]
  by (simp add: approx_eq_def hom_row_def mat4_at_def FLT_EPSILON_def)

section \<open>Properties of the lighting\<close>





section \<open>Properties of the canvas\<close>

lemma canvas_create_unit_range:
  "canvas_create w h = Some c \<Longrightarrow> canvas_ok c \<and> pixels_in_unit_range c"
  by (auto simp: canvas_create_def canvas_ok_def pixels_in_unit_range_def list_all_iff
      split: if_splits)

lemma list_all_update:
  "list_all P px \<Longrightarrow> P v \<Longrightarrow> list_all P (px[i := v])"
  by (auto simp: list_all_iff dest: set_update_subset_insert [THEN subsetD])

lemma set_pixel_cell_unit_range:
  assumes "list_all (\<lambda>v. 0 \<le> v \<and> v \<le> 1) px"
  shows "list_all (\<lambda>v. 0 \<le> v \<and> v \<le> (1::real))
           (set_pixel_cell cv x_int y_int fx fy intensity px ji)"
  using assms by (simp add: set_pixel_cell_def Let_def list_all_update)

lemma foldl_set_pixel_cell_unit_range:
  "list_all (\<lambda>v. 0 \<le> v \<and> v \<le> 1) px \<Longrightarrow>
   list_all (\<lambda>v. 0 \<le> v \<and> v \<le> (1::real))
     (foldl (set_pixel_cell cv x_int y_int fx fy intensity) px cells)"
  by (induction cells arbitrary: px) (simp_all add: set_pixel_cell_unit_range)

lemma set_pixel_f_unit_range:
  "pixels_in_unit_range c \<Longrightarrow> set_pixel_f (Some c) a b i = Some c' \<Longrightarrow> pixels_in_unit_range c'"
  by (auto simp: set_pixel_f_def pixels_in_unit_range_def Let_def
      foldl_set_pixel_cell_unit_range split: option.splits simp del: foldl.simps)

lemma clear_loop_eq:
  "clear_loop v idxs px = map (\<lambda>k. if k \<in> set idxs then v else px ! k) [0..<length px]"
proof (induction idxs arbitrary: px)
  case Nil
  then show ?case by (simp add: map_nth)
next
  case (Cons i rest)
  show ?case
    by (simp add: Cons.IH)
qed

lemma canvas_clear_fills:
  assumes "canvas_ok c"
  shows "canvas_clear (Some c) v =
           Some (c\<lparr>pixels := Some (replicate (nat (width c * height c)) v)\<rparr>)"
proof -
  define n where "n = nat (width c * height c)"
  from assms obtain px where px: "pixels c = Some px" and len: "length px = n"
    by (auto simp: canvas_ok_def n_def split: option.splits)
  have "clear_loop v [0..<n] px = replicate n v"
    unfolding clear_loop_eq using len by (simp add: list_eq_iff_nth_eq)
  then have "clear_loop v [0..<nat (width c * height c)] px
               = replicate (nat (width c * height c)) v"
    by (simp only: n_def)
  then show ?thesis
    by (simp add: canvas_clear_def px)
qed

text \<open>
  C5. The invariant "every stored intensity is in \<open>[0, 1]\<close>" holds after
  \<^verbatim>\<open>canvas_create\<close> and is kept by \<^verbatim>\<open>set_pixel_f\<close> (lemmas above), but
  \<^verbatim>\<open>canvas_clear\<close> stores its argument unclamped: clearing a fresh 1x1 canvas with
  intensity 2 leaves the stored value 2.
\<close>

theorem canvas_clear_stores_out_of_range:
  "canvas_clear (canvas_create 1 1) 2 =
     Some \<lparr>width = 1, height = 1, pixels = Some [2], active_viewport_radius = 0\<rparr>
   \<and> \<not> pixels_in_unit_range
         \<lparr>width = 1, height = 1, pixels = Some [2], active_viewport_radius = 0\<rparr>"
  by (simp add: canvas_clear_def canvas_create_def pixels_in_unit_range_def)

section \<open>Properties of the line rasteriser\<close>

















section \<open>Properties of the projection\<close>

lemma vec3_create_cartesian_x [simp]: "vec_x (vec3_create_cartesian a b c) = a"
  by (simp add: vec3_create_cartesian_def)

lemma vec3_create_cartesian_y [simp]: "vec_y (vec3_create_cartesian a b c) = b"
  by (simp add: vec3_create_cartesian_def)

lemma vec3_create_cartesian_z [simp]: "vec_z (vec3_create_cartesian a b c) = c"
  by (simp add: vec3_create_cartesian_def)

lemma project_vertex_behind:
  assumes "clip_w v mm vm pm < FLT_EPSILON"
  shows "project_vertex uninit v mm vm pm sw sh =
     \<lparr>position_screen = uninit\<lparr>vec_x := - 10000, vec_y := - 10000,
                                 vec_z := vec_z (camera_pos v mm vm)\<rparr>,
      is_clipped = 1\<rparr>"
  using assms
  by (simp add: project_vertex_def clip_w_def clip_coord_def camera_pos_def Let_def)

lemma project_vertex_front_clipped:
  assumes "\<not> clip_w v mm vm pm < FLT_EPSILON"
  shows "is_clipped (project_vertex uninit v mm vm pm sw sh) =
           (if ndc_outside v mm vm pm then 2 else 0)"
  using assms
  by (simp add: project_vertex_def clip_w_def clip_coord_def camera_pos_def ndc_outside_def
      Let_def)

lemma project_vertex_front_x:
  assumes "\<not> clip_w v mm vm pm < FLT_EPSILON"
  shows "vec_x (position_screen (project_vertex uninit v mm vm pm sw sh)) =
           (clip_coord pm 0 (camera_pos v mm vm) / clip_w v mm vm pm + 1) * 0.5 * real_of_int sw"
  using assms
  by (simp add: project_vertex_def clip_w_def clip_coord_def camera_pos_def
      vec3_set_cartesian_def Let_def)

lemma project_vertex_front_y:
  assumes "\<not> clip_w v mm vm pm < FLT_EPSILON"
  shows "vec_y (position_screen (project_vertex uninit v mm vm pm sw sh)) =
           (1 - clip_coord pm 1 (camera_pos v mm vm) / clip_w v mm vm pm) * 0.5 * real_of_int sh"
  using assms
  by (simp add: project_vertex_def clip_w_def clip_coord_def camera_pos_def
      vec3_set_cartesian_def Let_def)

lemma project_vertex_z:
  "vec_z (position_screen (project_vertex uninit v mm vm pm sw sh)) = vec_z (camera_pos v mm vm)"
  by (simp add: project_vertex_def camera_pos_def vec3_set_cartesian_def Let_def)

lemma project_vertex_clipped_cases:
  "is_clipped (project_vertex uninit v mm vm pm sw sh) =
     (if clip_w v mm vm pm < FLT_EPSILON then 1
      else if ndc_outside v mm vm pm then 2 else 0)"
  by (simp add: project_vertex_behind project_vertex_front_clipped)

lemma project_vertex_behind_iff:
  "is_clipped (project_vertex uninit v mm vm pm sw sh) = 1 \<longleftrightarrow> clip_w v mm vm pm < FLT_EPSILON"
  by (simp add: project_vertex_clipped_cases)

section \<open>Properties of the renderer\<close>

lemma collect_edges_filter:
  "collect_edges pvs nv es idxs acc =
     acc @ map (edge_entry pvs es) (filter (edge_kept pvs nv es) idxs)"
  by (induction idxs arbitrary: acc) (simp_all add: edge_kept_def edge_entry_def Let_def)

lemma renderable_edges_filter:
  "renderable_edges uninit cv vs nv es ne mm vm pm =
     map (edge_entry (map (\<lambda>i. project_vertex uninit (vs ! i) mm vm pm (width cv) (height cv))
                        [0..<nat nv]) es)
       (filter (edge_kept (map (\<lambda>i. project_vertex uninit (vs ! i) mm vm pm (width cv) (height cv))
                             [0..<nat nv]) nv es)
          [0..<nat ne])"
  by (simp add: renderable_edges_def collect_edges_filter Let_def)

lemma qsort_insert_mset: "mset (qsort_insert cmp e xs) = add_mset e (mset xs)"
  by (induction xs) simp_all

lemma qsort_mset: "mset (qsort cmp xs) = mset xs"
  by (induction xs) (simp_all add: qsort_insert_mset)

lemma qsort_set: "set (qsort cmp xs) = set xs"
  by (metis qsort_mset set_mset_mset)

lemma qsort_insert_set: "set (qsort_insert cmp e xs) = insert e (set xs)"
  by (metis qsort_insert_mset set_mset_mset set_mset_add_mset_insert)

lemma compare_le_iff: "compare_renderable_edges a b \<le> 0 \<longleftrightarrow> avg_z b \<le> avg_z a"
  by (simp add: compare_renderable_edges_def)

lemma qsort_insert_sorted:
  "sorted_wrt (\<lambda>a b. avg_z b \<le> avg_z a) xs \<Longrightarrow>
   sorted_wrt (\<lambda>a b. avg_z b \<le> avg_z a) (qsort_insert compare_renderable_edges e xs)"
proof (induction xs)
  case Nil
  then show ?case by simp
next
  case (Cons y ys)
  show ?case
  proof (cases "compare_renderable_edges e y \<le> 0")
    case True
    then have "avg_z y \<le> avg_z e" by (simp add: compare_le_iff)
    with Cons.prems True show ?thesis by auto
  next
    case False
    then have "avg_z e \<le> avg_z y" by (simp add: compare_le_iff)
    with Cons False show ?thesis by (auto simp: qsort_insert_set)
  qed
qed

lemma qsort_sorted:
  "sorted_wrt (\<lambda>a b. avg_z b \<le> avg_z a) (qsort compare_renderable_edges xs)"
  by (induction xs) (simp_all add: qsort_insert_sorted)

lemma draw_loop_foldl:
  "draw_loop uninit vs es mm lights num_lights t srt c =
     foldl apply_line_call c
       (List.map_filter (edge_draw_call uninit vs es mm lights num_lights t) srt)"
  by (induction srt arbitrary: c) (simp_all add: List.map_filter_simps split: option.splits)

lemma render_wireframe_calls:
  assumes "vertices md = Some vs" "edges md = Some es"
    and "num_vertices md \<noteq> 0" "num_edges md \<noteq> 0"
  shows "render_wireframe uninit (Some cv) (Some md) (Some mm) (Some vm) (Some pm)
           lights num_lights radius t =
         foldl apply_line_call (Some (cv\<lparr>active_viewport_radius := radius\<rparr>))
           (wireframe_line_calls uninit cv vs (num_vertices md) es (num_edges md) mm vm pm
              lights num_lights t)"
  using assms
  by (simp add: render_wireframe_def wireframe_line_calls_def draw_loop_foldl
      canvas_set_circular_viewport_def Let_def)

lemma map_filter_eq_map_filter:
  "List.map_filter f xs = map (\<lambda>x. the (f x)) (filter (\<lambda>x. f x \<noteq> None) xs)"
  by (induction xs) (auto simp: List.map_filter_simps split: option.splits)

lemma edge_draw_call_None_iff:
  "edge_draw_call uninit vs es mm lights num_lights t e = None \<longleftrightarrow>
     \<not> (is_clipped (v0 e) = 0 \<and> is_clipped (v1 e) = 0)"
  by (simp add: edge_draw_call_def Let_def)

section \<open>The example scenes evaluated\<close>

lemma mat4_identity_list:
  "mat4_identity = [1, 0, 0, 0,  0, 1, 0, 0,  0, 0, 1, 0,  0, 0, 0, 1]"
  by (simp add: mat4_identity_def numeral_eq_Suc)

lemma scene_projection_list:
  "scene_projection = [1, 0, 0, 0,  0, 1, 0, 0,  0, 0, - (5 / 4), - 1,  0, 0, - (9 / 4), 0]"
  by (simp add: scene_projection_def mat4_frustum_asymmetric_def numeral_eq_Suc)

lemma camera_pos_identity:
  "vec_x (camera_pos (vec3_create_cartesian a b c) mat4_identity mat4_identity) = a"
  "vec_y (camera_pos (vec3_create_cartesian a b c) mat4_identity mat4_identity) = b"
  "vec_z (camera_pos (vec3_create_cartesian a b c) mat4_identity mat4_identity) = c"
  by (simp_all add: camera_pos_def mat4_transform_point_x mat4_transform_point_y
      mat4_transform_point_z hom_row_def mat4_at_def mat4_identity_list)

lemma scene_clip:
  "clip_coord scene_projection 0 (camera_pos (vec3_create_cartesian a b c) mat4_identity mat4_identity) = a"
  "clip_coord scene_projection (Suc 0) (camera_pos (vec3_create_cartesian a b c) mat4_identity mat4_identity) = b"
  "clip_coord scene_projection 2 (camera_pos (vec3_create_cartesian a b c) mat4_identity mat4_identity)
     = - (5 / 4) * c - 9 / 4"
  "clip_coord scene_projection 3 (camera_pos (vec3_create_cartesian a b c) mat4_identity mat4_identity) = - c"
  by (simp_all add: clip_coord_def camera_pos_identity scene_projection_list)

lemma scene_clip_w:
  "clip_w (vec3_create_cartesian a b c) mat4_identity mat4_identity scene_projection = - c"
  by (simp add: clip_w_def scene_clip)

lemma scene_ndc_outside:
  "ndc_outside (vec3_create_cartesian a b c) mat4_identity mat4_identity scene_projection \<longleftrightarrow>
     a / - c < - 1 \<or> a / - c > 1 \<or> b / - c < - 1 \<or> b / - c > 1
     \<or> (- (5 / 4) * c - 9 / 4) / - c < - 1 \<or> (- (5 / 4) * c - 9 / 4) / - c > 1"
  by (simp add: ndc_outside_def scene_clip Let_def)

lemmas scene_simps =
  scene_clip_w scene_ndc_outside scene_clip camera_pos_identity
  project_vertex_clipped_cases project_vertex_z project_vertex_front_x project_vertex_front_y
  FLT_EPSILON_def

lemma upt_2: "[0..<2] = [0, 1]" by (simp add: upt_conv_Cons)
lemma upt_4: "[0..<4] = [0, 1, 2, 3]" by (simp add: upt_conv_Cons)

lemma depth_scene_edges:
  "map (\<lambda>e. (original_edge_index e, avg_z e, is_clipped (v0 e), is_clipped (v1 e)))
     (renderable_edges scene_uninit scene_canvas
        [vec3_create_cartesian 0 0 (- 5), vec3_create_cartesian 1 0 (- 5),
         vec3_create_cartesian 0 0 (- 2), vec3_create_cartesian 1 0 (- 2)] 4
        [0, 1, 2, 3] 2 mat4_identity mat4_identity scene_projection)
   = [(0, - 5, 0, 0), (1, - 2, 0, 0)]"
  by (simp add: renderable_edges_filter upt_2 upt_4 edge_kept_def edge_entry_def scene_simps
      scene_canvas_def)

lemma depth_scene_calls:
  "wireframe_line_calls scene_uninit scene_canvas
        [vec3_create_cartesian 0 0 (- 5), vec3_create_cartesian 1 0 (- 5),
         vec3_create_cartesian 0 0 (- 2), vec3_create_cartesian 1 0 (- 2)] 4
        [0, 1, 2, 3] 2 mat4_identity mat4_identity scene_projection None 0 1
   = [\<lparr>lc_x0 = 2, lc_y0 = 2, lc_x1 = 3, lc_y1 = 2, lc_thickness = 1, lc_intensity = 1\<rparr>,
      \<lparr>lc_x0 = 2, lc_y0 = 2, lc_x1 = 12 / 5, lc_y1 = 2, lc_thickness = 1, lc_intensity = 1\<rparr>]"
  by (simp add: wireframe_line_calls_def renderable_edges_filter upt_2 upt_4 edge_kept_def
      edge_entry_def scene_simps scene_canvas_def compare_renderable_edges_def
      List.map_filter_simps edge_draw_call_def)

section \<open>Clipping, depth order and lighting in the renderer\<close>

lemma projected_nth:
  assumes "0 \<le> idx" "idx < nv"
  shows "map (\<lambda>i. project_vertex uninit (vs ! i) mm vm pm sw sh) [0..<nat nv] ! nat idx
         = project_vertex uninit (vs ! nat idx) mm vm pm sw sh"
proof -
  have "nat idx < length [0..<nat nv]" using assms by simp
  then show ?thesis by (simp only: nth_map nth_upt) simp
qed

lemma renderable_edges_member:
  assumes "e \<in> set (renderable_edges uninit cv vs nv es ne mm vm pm)"
  shows "\<exists>i < nat ne.
           0 \<le> es ! (i * 2) \<and> es ! (i * 2) < nv \<and> 0 \<le> es ! (i * 2 + 1) \<and> es ! (i * 2 + 1) < nv
           \<and> original_edge_index e = int i
           \<and> v0 e = project_vertex uninit (vs ! nat (es ! (i * 2))) mm vm pm (width cv) (height cv)
           \<and> v1 e = project_vertex uninit (vs ! nat (es ! (i * 2 + 1))) mm vm pm (width cv) (height cv)
           \<and> is_clipped (v0 e) \<noteq> 1 \<and> is_clipped (v1 e) \<noteq> 1"
proof -
  let ?pvs = "map (\<lambda>i. project_vertex uninit (vs ! i) mm vm pm (width cv) (height cv)) [0..<nat nv]"
  from assms obtain i where i: "i < nat ne" "edge_kept ?pvs nv es i" "e = edge_entry ?pvs es i"
    unfolding renderable_edges_filter by auto
  from i(2) have r: "0 \<le> es ! (i * 2)" "es ! (i * 2) < nv"
      "0 \<le> es ! (i * 2 + 1)" "es ! (i * 2 + 1) < nv"
    unfolding edge_kept_def add_0_right by linarith+
  from i(2) have c: "is_clipped (?pvs ! nat (es ! (i * 2))) \<noteq> 1"
           "is_clipped (?pvs ! nat (es ! (i * 2 + 1))) \<noteq> 1"
    unfolding edge_kept_def add_0_right by blast+
  have "v0 e = ?pvs ! nat (es ! (i * 2))" "v1 e = ?pvs ! nat (es ! (i * 2 + 1))"
    "original_edge_index e = int i"
    by (simp_all add: i(3) edge_entry_def)
  then show ?thesis
    using i(1) r c projected_nth [OF r(1,2)] projected_nth [OF r(3,4)] by metis
qed

lemma renderable_edges_no_behind:
  assumes "e \<in> set (renderable_edges uninit cv vs nv es ne mm vm pm)"
  shows "is_clipped (v0 e) \<noteq> 1 \<and> is_clipped (v1 e) \<noteq> 1"
  using renderable_edges_member [OF assms] by blast


lemma behind_edge_excluded:
  assumes "i < nat ne"
    and "0 \<le> es ! (i * 2)" "es ! (i * 2) < nv" "0 \<le> es ! (i * 2 + 1)" "es ! (i * 2 + 1) < nv"
    and "clip_w (vs ! nat (es ! (i * 2))) mm vm pm < FLT_EPSILON
         \<or> clip_w (vs ! nat (es ! (i * 2 + 1))) mm vm pm < FLT_EPSILON"
  shows "int i \<notin> original_edge_index ` set (renderable_edges uninit cv vs nv es ne mm vm pm)"
proof
  assume "int i \<in> original_edge_index ` set (renderable_edges uninit cv vs nv es ne mm vm pm)"
  then obtain e where e: "e \<in> set (renderable_edges uninit cv vs nv es ne mm vm pm)"
    and oi: "original_edge_index e = int i" by auto
  from renderable_edges_member [OF e] oi have
    "v0 e = project_vertex uninit (vs ! nat (es ! (i * 2))) mm vm pm (width cv) (height cv)"
    "v1 e = project_vertex uninit (vs ! nat (es ! (i * 2 + 1))) mm vm pm (width cv) (height cv)"
    "is_clipped (v0 e) \<noteq> 1" "is_clipped (v1 e) \<noteq> 1"
    by auto
  then show False
    using assms(6) by (simp add: project_vertex_behind_iff)
qed

text \<open>
  C3. A vertex whose clip-space \<open>w\<close> is below \<open>FLT_EPSILON\<close> is returned with
  \<open>is_clipped = 1\<close> and the screen position \<open>(-10000, -10000)\<close>; nothing else is
  computed (the depth is the camera-space \<open>z\<close>, the other fields are left as they
  were, the result does not depend on the screen size). No entry of the
  renderable-edge list has an endpoint with \<open>is_clipped = 1\<close>, and an edge with valid
  indices and an endpoint of \<open>w\<close> below \<open>FLT_EPSILON\<close> has no entry in the list.
\<close>

theorem behind_eye_excluded:
  "(clip_w v mm vm pm < FLT_EPSILON \<longrightarrow>
      project_vertex uninit v mm vm pm sw sh =
        \<lparr>position_screen = uninit\<lparr>vec_x := - 10000, vec_y := - 10000,
                                    vec_z := vec_z (camera_pos v mm vm)\<rparr>,
         is_clipped = 1\<rparr>)
   \<and> (\<forall>e \<in> set (renderable_edges uninit cv vs nv es ne mm vm pm).
         is_clipped (v0 e) \<noteq> 1 \<and> is_clipped (v1 e) \<noteq> 1)
   \<and> (\<forall>i < nat ne.
         0 \<le> es ! (i * 2) \<and> es ! (i * 2) < nv \<and> 0 \<le> es ! (i * 2 + 1) \<and> es ! (i * 2 + 1) < nv
         \<and> (clip_w (vs ! nat (es ! (i * 2))) mm vm pm < FLT_EPSILON
            \<or> clip_w (vs ! nat (es ! (i * 2 + 1))) mm vm pm < FLT_EPSILON)
         \<longrightarrow> int i \<notin> original_edge_index ` set (renderable_edges uninit cv vs nv es ne mm vm pm))"
  using project_vertex_behind [of v mm vm pm uninit sw sh]
    renderable_edges_no_behind [of _ uninit cv vs nv es ne mm vm pm]
    behind_edge_excluded [of _ ne es nv vs mm vm pm uninit cv]
  by blast

text \<open>
  C3 on the scene with a vertex behind the camera: it is marked, edge 0 is in the
  list and edge 1, which ends at it, is not.
\<close>

theorem behind_eye_excluded_witness:
  "clip_w (vec3_create_cartesian 0 0 1) mat4_identity mat4_identity scene_projection < FLT_EPSILON
   \<and> project_vertex scene_uninit (vec3_create_cartesian 0 0 1) mat4_identity mat4_identity
        scene_projection 4 4 =
        \<lparr>position_screen = \<lparr>vec_x = - 10000, vec_y = - 10000, vec_z = 1,
                             vec_r = 7, vec_theta = 7, vec_phi = 7\<rparr>,
         is_clipped = 1\<rparr>
   \<and> map original_edge_index
        (renderable_edges scene_uninit scene_canvas
           [vec3_create_cartesian 0 0 (- 2), vec3_create_cartesian 1 0 (- 2),
            vec3_create_cartesian 0 0 1] 3
           [0, 1, 0, 2] 2 mat4_identity mat4_identity scene_projection) = [0]
   \<and> 1 \<notin> original_edge_index ` set
        (renderable_edges scene_uninit scene_canvas
           [vec3_create_cartesian 0 0 (- 2), vec3_create_cartesian 1 0 (- 2),
            vec3_create_cartesian 0 0 1] 3
           [0, 1, 0, 2] 2 mat4_identity mat4_identity scene_projection)"
proof -
  have w: "clip_w (vec3_create_cartesian 0 0 1) mat4_identity mat4_identity scene_projection
             < FLT_EPSILON"
    by (simp add: scene_simps)
  have l: "map original_edge_index
        (renderable_edges scene_uninit scene_canvas
           [vec3_create_cartesian 0 0 (- 2), vec3_create_cartesian 1 0 (- 2),
            vec3_create_cartesian 0 0 1] 3
           [0, 1, 0, 2] 2 mat4_identity mat4_identity scene_projection) = [0]"
    by (simp add: renderable_edges_filter upt_2 upt_conv_Cons edge_kept_def edge_entry_def
        scene_simps scene_canvas_def)
  have "1 < nat 2 \<and> (0::int) \<le> [0, 1, 0, 2] ! (1 * 2) \<and> [0, 1, 0, 2] ! (1 * 2) < (3::int)
      \<and> (0::int) \<le> [0, 1, 0, 2] ! (1 * 2 + 1) \<and> [0, 1, 0, 2] ! (1 * 2 + 1) < (3::int)
      \<and> clip_w ([vec3_create_cartesian 0 0 (- 2), vec3_create_cartesian 1 0 (- 2),
                  vec3_create_cartesian 0 0 1] ! nat ([0, 1, 0, 2] ! (1 * 2 + 1)))
           mat4_identity mat4_identity scene_projection < FLT_EPSILON"
    by (simp add: scene_simps)
  with behind_eye_excluded [of "vec3_create_cartesian 0 0 1" mat4_identity mat4_identity
      scene_projection scene_uninit 4 4 scene_canvas
      "[vec3_create_cartesian 0 0 (- 2), vec3_create_cartesian 1 0 (- 2),
        vec3_create_cartesian 0 0 1]" 3 "[0, 1, 0, 2]" 2]
  have "project_vertex scene_uninit (vec3_create_cartesian 0 0 1) mat4_identity mat4_identity
        scene_projection 4 4 =
        \<lparr>position_screen = scene_uninit\<lparr>vec_x := - 10000, vec_y := - 10000,
            vec_z := vec_z (camera_pos (vec3_create_cartesian 0 0 1) mat4_identity mat4_identity)\<rparr>,
         is_clipped = 1\<rparr>"
    and "int 1 \<notin> original_edge_index ` set
        (renderable_edges scene_uninit scene_canvas
           [vec3_create_cartesian 0 0 (- 2), vec3_create_cartesian 1 0 (- 2),
            vec3_create_cartesian 0 0 1] 3
           [0, 1, 0, 2] 2 mat4_identity mat4_identity scene_projection)"
    using w by blast+
  then show ?thesis
    using w l by (simp add: scene_uninit_def camera_pos_identity)
qed

lemma wireframe_line_calls_filter:
  "wireframe_line_calls uninit cv vs nv es ne mm vm pm lights num_lights t =
     map (\<lambda>e. the (edge_draw_call uninit vs es mm lights num_lights t e))
       (filter (\<lambda>e. is_clipped (v0 e) = 0 \<and> is_clipped (v1 e) = 0)
          (qsort compare_renderable_edges
             (renderable_edges uninit cv vs nv es ne mm vm pm)))"
  by (simp add: wireframe_line_calls_def map_filter_eq_map_filter edge_draw_call_None_iff)

lemma edge_draw_call_unlit:
  assumes "lights = None \<or> num_lights \<le> 0"
    and "is_clipped (v0 e) = 0 \<and> is_clipped (v1 e) = 0"
  shows "edge_draw_call uninit vs es mm lights num_lights t e =
     Some \<lparr>lc_x0 = vec_x (position_screen (v0 e)), lc_y0 = vec_y (position_screen (v0 e)),
           lc_x1 = vec_x (position_screen (v1 e)), lc_y1 = vec_y (position_screen (v1 e)),
           lc_thickness = t, lc_intensity = 1\<rparr>"
  using assms by (auto simp: edge_draw_call_def Let_def)






lemma wireframe_line_calls_unlit:
  assumes "lights = None \<or> num_lights \<le> 0"
  shows "wireframe_line_calls uninit cv vs nv es ne mm vm pm lights num_lights t =
     map (\<lambda>e. \<lparr>lc_x0 = vec_x (position_screen (v0 e)), lc_y0 = vec_y (position_screen (v0 e)),
                 lc_x1 = vec_x (position_screen (v1 e)), lc_y1 = vec_y (position_screen (v1 e)),
                 lc_thickness = t, lc_intensity = 1\<rparr>)
       (filter (\<lambda>e. is_clipped (v0 e) = 0 \<and> is_clipped (v1 e) = 0)
          (qsort compare_renderable_edges
             (renderable_edges uninit cv vs nv es ne mm vm pm)))"
  unfolding wireframe_line_calls_filter
  by (rule map_cong [OF refl]) (simp add: edge_draw_call_unlit [OF assms])

text \<open>
  C10, as the code has it. With a \<^verbatim>\<open>NULL\<close> light array or a light count of zero or
  less, the calls of \<^verbatim>\<open>draw_line_f\<close> are those for the sorted edges whose two
  endpoints have \<open>is_clipped = 0\<close>, each with the intensity 1; the lighting function
  would give 0.5 for these lights and is not used.
\<close>

theorem unlit_edges_full_intensity:
  "lights = None \<or> num_lights \<le> 0 \<longrightarrow>
     wireframe_line_calls uninit cv vs nv es ne mm vm pm lights num_lights t =
       map (\<lambda>e. \<lparr>lc_x0 = vec_x (position_screen (v0 e)), lc_y0 = vec_y (position_screen (v0 e)),
                   lc_x1 = vec_x (position_screen (v1 e)), lc_y1 = vec_y (position_screen (v1 e)),
                   lc_thickness = t, lc_intensity = 1\<rparr>)
         (filter (\<lambda>e. is_clipped (v0 e) = 0 \<and> is_clipped (v1 e) = 0)
            (qsort compare_renderable_edges
               (renderable_edges uninit cv vs nv es ne mm vm pm)))
     \<and> (\<forall>d \<in> set (wireframe_line_calls uninit cv vs nv es ne mm vm pm lights num_lights t).
           lc_intensity d = 1)
     \<and> calculate_total_lighting_intensity n lights num_lights = 0.5
     \<and> (nv \<noteq> 0 \<and> ne \<noteq> 0 \<longrightarrow>
         render_wireframe uninit (Some cv)
           (Some \<lparr>vertices = Some vs, num_vertices = nv, edges = Some es, num_edges = ne\<rparr>)
           (Some mm) (Some vm) (Some pm) lights num_lights radius t =
         foldl apply_line_call (Some (cv\<lparr>active_viewport_radius := radius\<rparr>))
           (wireframe_line_calls uninit cv vs nv es ne mm vm pm lights num_lights t))"
proof (intro impI conjI ballI)
  assume a: "lights = None \<or> num_lights \<le> 0"
  show c: "wireframe_line_calls uninit cv vs nv es ne mm vm pm lights num_lights t =
       map (\<lambda>e. \<lparr>lc_x0 = vec_x (position_screen (v0 e)), lc_y0 = vec_y (position_screen (v0 e)),
                   lc_x1 = vec_x (position_screen (v1 e)), lc_y1 = vec_y (position_screen (v1 e)),
                   lc_thickness = t, lc_intensity = 1\<rparr>)
         (filter (\<lambda>e. is_clipped (v0 e) = 0 \<and> is_clipped (v1 e) = 0)
            (qsort compare_renderable_edges
               (renderable_edges uninit cv vs nv es ne mm vm pm)))"
    by (rule wireframe_line_calls_unlit [OF a])
  show "calculate_total_lighting_intensity n lights num_lights = 0.5"
    using a by (auto simp: calculate_total_lighting_intensity_def split: option.splits)
  {
    fix d
    assume "d \<in> set (wireframe_line_calls uninit cv vs nv es ne mm vm pm lights num_lights t)"
    then show "lc_intensity d = 1"
      unfolding c by auto
  }
  {
    assume "nv \<noteq> 0 \<and> ne \<noteq> 0"
    then show "render_wireframe uninit (Some cv)
           (Some \<lparr>vertices = Some vs, num_vertices = nv, edges = Some es, num_edges = ne\<rparr>)
           (Some mm) (Some vm) (Some pm) lights num_lights radius t =
         foldl apply_line_call (Some (cv\<lparr>active_viewport_radius := radius\<rparr>))
           (wireframe_line_calls uninit cv vs nv es ne mm vm pm lights num_lights t)"
      using render_wireframe_calls
        [of "\<lparr>vertices = Some vs, num_vertices = nv, edges = Some es, num_edges = ne\<rparr>"
            vs es uninit cv mm vm pm lights num_lights radius t]
      by simp
  }
qed

lemma depth_scene_calls_any:
  "lights = None \<or> num_lights \<le> 0 \<Longrightarrow>
   wireframe_line_calls scene_uninit scene_canvas
        [vec3_create_cartesian 0 0 (- 5), vec3_create_cartesian 1 0 (- 5),
         vec3_create_cartesian 0 0 (- 2), vec3_create_cartesian 1 0 (- 2)] 4
        [0, 1, 2, 3] 2 mat4_identity mat4_identity scene_projection lights num_lights 1
   = [\<lparr>lc_x0 = 2, lc_y0 = 2, lc_x1 = 3, lc_y1 = 2, lc_thickness = 1, lc_intensity = 1\<rparr>,
      \<lparr>lc_x0 = 2, lc_y0 = 2, lc_x1 = 12 / 5, lc_y1 = 2, lc_thickness = 1, lc_intensity = 1\<rparr>]"
  by (simp add: wireframe_line_calls_unlit renderable_edges_filter upt_2 upt_4 edge_kept_def
      edge_entry_def scene_simps scene_canvas_def compare_renderable_edges_def)

text \<open>
  C10 on the scene of two visible edges, with a light array and the count 0: two
  calls, both at intensity 1, where the lighting function gives 0.5.
\<close>

theorem unlit_edges_full_intensity_witness:
  "(Some [scene_light] = None \<or> (0::int) \<le> 0)
   \<and> wireframe_line_calls scene_uninit scene_canvas
        [vec3_create_cartesian 0 0 (- 5), vec3_create_cartesian 1 0 (- 5),
         vec3_create_cartesian 0 0 (- 2), vec3_create_cartesian 1 0 (- 2)] 4
        [0, 1, 2, 3] 2 mat4_identity mat4_identity scene_projection (Some [scene_light]) 0 1
       = [\<lparr>lc_x0 = 2, lc_y0 = 2, lc_x1 = 3, lc_y1 = 2, lc_thickness = 1, lc_intensity = 1\<rparr>,
          \<lparr>lc_x0 = 2, lc_y0 = 2, lc_x1 = 12 / 5, lc_y1 = 2, lc_thickness = 1, lc_intensity = 1\<rparr>]
   \<and> calculate_total_lighting_intensity (vec3_create_cartesian 1 0 0) (Some [scene_light]) 0 = 0.5
   \<and> render_wireframe scene_uninit (Some scene_canvas) (Some depth_scene)
        (Some mat4_identity) (Some mat4_identity) (Some scene_projection)
        (Some [scene_light]) 0 0 1 =
       foldl apply_line_call (Some scene_canvas)
         [\<lparr>lc_x0 = 2, lc_y0 = 2, lc_x1 = 3, lc_y1 = 2, lc_thickness = 1, lc_intensity = 1\<rparr>,
          \<lparr>lc_x0 = 2, lc_y0 = 2, lc_x1 = 12 / 5, lc_y1 = 2, lc_thickness = 1, lc_intensity = 1\<rparr>]"
proof -
  have h: "Some [scene_light] = None \<or> (0::int) \<le> 0" by simp
  have n: "(4::int) \<noteq> 0 \<and> (2::int) \<noteq> 0" by simp
  have c: "scene_canvas\<lparr>active_viewport_radius := 0\<rparr> = scene_canvas"
    by (simp add: scene_canvas_def)
  note u = unlit_edges_full_intensity
      [where uninit = scene_uninit
         and vs = "[vec3_create_cartesian 0 0 (- 5), vec3_create_cartesian 1 0 (- 5),
                    vec3_create_cartesian 0 0 (- 2), vec3_create_cartesian 1 0 (- 2)]"
         and es = "[0, 1, 2, 3]" and mm = mat4_identity and lights = "Some [scene_light]"
         and num_lights = 0 and t = 1 and cv = scene_canvas and nv = 4 and ne = 2
         and vm = mat4_identity and pm = scene_projection and radius = 0
         and n = "vec3_create_cartesian 1 0 0", rule_format, OF h]
  have l: "calculate_total_lighting_intensity (vec3_create_cartesian 1 0 0)
             (Some [scene_light]) 0 = 0.5"
    using u by blast
  have r: "render_wireframe scene_uninit (Some scene_canvas) (Some depth_scene)
        (Some mat4_identity) (Some mat4_identity) (Some scene_projection)
        (Some [scene_light]) 0 0 1 =
       foldl apply_line_call (Some scene_canvas)
         [\<lparr>lc_x0 = 2, lc_y0 = 2, lc_x1 = 3, lc_y1 = 2, lc_thickness = 1, lc_intensity = 1\<rparr>,
          \<lparr>lc_x0 = 2, lc_y0 = 2, lc_x1 = 12 / 5, lc_y1 = 2, lc_thickness = 1, lc_intensity = 1\<rparr>]"
    using n u
    by (simp only: depth_scene_def depth_scene_calls_any [OF h] c simp_thms)
  show ?thesis
    using h l r depth_scene_calls_any [OF h] by blast
qed

lemma tall_scene_edges:
  "map (\<lambda>e. (original_edge_index e, is_clipped (v0 e), is_clipped (v1 e)))
     (renderable_edges scene_uninit scene_canvas
        [vec3_create_cartesian 0 0 (- 2), vec3_create_cartesian 0 7 (- 2)] 2
        [0, 1] 1 mat4_identity mat4_identity scene_projection)
   = [(0, 0, 2)]"
  by (simp add: renderable_edges_filter upt_2 edge_kept_def edge_entry_def scene_simps
      scene_canvas_def)

lemma tall_scene_calls:
  "wireframe_line_calls scene_uninit scene_canvas
        [vec3_create_cartesian 0 0 (- 2), vec3_create_cartesian 0 7 (- 2)] 2
        [0, 1] 1 mat4_identity mat4_identity scene_projection lights num_lights t = []"
  by (simp add: wireframe_line_calls_filter renderable_edges_filter upt_2 edge_kept_def
      edge_entry_def scene_simps scene_canvas_def)

text \<open>
  The claim fails on the scene with a vertex above the frustum, rendered with a
  \<^verbatim>\<open>NULL\<close> light array: the edge is in the renderable list and it is not drawn at
  any intensity; the canvas is returned as it was.
\<close>

theorem unlit_kept_edge_counterexample:
  "map (\<lambda>e. (original_edge_index e, is_clipped (v0 e), is_clipped (v1 e)))
     (renderable_edges scene_uninit scene_canvas
        [vec3_create_cartesian 0 0 (- 2), vec3_create_cartesian 0 7 (- 2)] 2
        [0, 1] 1 mat4_identity mat4_identity scene_projection)
   = [(0, 0, 2)]
   \<and> wireframe_line_calls scene_uninit scene_canvas
        [vec3_create_cartesian 0 0 (- 2), vec3_create_cartesian 0 7 (- 2)] 2
        [0, 1] 1 mat4_identity mat4_identity scene_projection None 0 1 = []
   \<and> render_wireframe scene_uninit (Some scene_canvas) (Some tall_scene)
        (Some mat4_identity) (Some mat4_identity) (Some scene_projection)
        None 0 0 1 = Some scene_canvas"
proof -
  have "render_wireframe scene_uninit (Some scene_canvas) (Some tall_scene)
        (Some mat4_identity) (Some mat4_identity) (Some scene_projection)
        None 0 0 1 =
        foldl apply_line_call (Some (scene_canvas\<lparr>active_viewport_radius := 0\<rparr>))
          (wireframe_line_calls scene_uninit scene_canvas
             [vec3_create_cartesian 0 0 (- 2), vec3_create_cartesian 0 7 (- 2)]
             (num_vertices tall_scene) [0, 1] (num_edges tall_scene)
             mat4_identity mat4_identity scene_projection None 0 1)"
    by (rule render_wireframe_calls) (simp_all add: tall_scene_def)
  also have "\<dots> = Some (scene_canvas\<lparr>active_viewport_radius := 0\<rparr>)"
    by (simp add: tall_scene_def tall_scene_calls)
  also have "\<dots> = Some scene_canvas"
    by (simp add: scene_canvas_def)
  finally have "render_wireframe scene_uninit (Some scene_canvas) (Some tall_scene)
        (Some mat4_identity) (Some mat4_identity) (Some scene_projection)
        None 0 0 1 = Some scene_canvas" .
  then show ?thesis
    using tall_scene_edges tall_scene_calls by blast
qed

text \<open>
  C2. On the scene of two visible edges, edge 0 at depth \<open>-5\<close> and edge 1 at depth
  \<open>-2\<close>, the sort puts edge 1 first: the nearer edge (the less negative average
  \<open>z\<close>) is drawn before the farther one. The comparison function returns 1 for
  the smaller \<open>avg_z\<close>, which \<^verbatim>\<open>qsort\<close> places later: the order is descending in
  \<open>avg_z\<close>, front to back.
\<close>

theorem depth_sort_front_to_back:
  "map (\<lambda>e. (original_edge_index e, avg_z e))
     (renderable_edges scene_uninit scene_canvas
        [vec3_create_cartesian 0 0 (- 5), vec3_create_cartesian 1 0 (- 5),
         vec3_create_cartesian 0 0 (- 2), vec3_create_cartesian 1 0 (- 2)] 4
        [0, 1, 2, 3] 2 mat4_identity mat4_identity scene_projection)
   = [(0, - 5), (1, - 2)]
   \<and> map (\<lambda>e. (original_edge_index e, avg_z e))
     (qsort compare_renderable_edges
        (renderable_edges scene_uninit scene_canvas
           [vec3_create_cartesian 0 0 (- 5), vec3_create_cartesian 1 0 (- 5),
            vec3_create_cartesian 0 0 (- 2), vec3_create_cartesian 1 0 (- 2)] 4
           [0, 1, 2, 3] 2 mat4_identity mat4_identity scene_projection))
   = [(1, - 2), (0, - 5)]
   \<and> wireframe_line_calls scene_uninit scene_canvas
        [vec3_create_cartesian 0 0 (- 5), vec3_create_cartesian 1 0 (- 5),
         vec3_create_cartesian 0 0 (- 2), vec3_create_cartesian 1 0 (- 2)] 4
        [0, 1, 2, 3] 2 mat4_identity mat4_identity scene_projection None 0 1
       = [\<lparr>lc_x0 = 2, lc_y0 = 2, lc_x1 = 3, lc_y1 = 2, lc_thickness = 1, lc_intensity = 1\<rparr>,
          \<lparr>lc_x0 = 2, lc_y0 = 2, lc_x1 = 12 / 5, lc_y1 = 2, lc_thickness = 1, lc_intensity = 1\<rparr>]"
proof (intro conjI)
  show "map (\<lambda>e. (original_edge_index e, avg_z e))
     (renderable_edges scene_uninit scene_canvas
        [vec3_create_cartesian 0 0 (- 5), vec3_create_cartesian 1 0 (- 5),
         vec3_create_cartesian 0 0 (- 2), vec3_create_cartesian 1 0 (- 2)] 4
        [0, 1, 2, 3] 2 mat4_identity mat4_identity scene_projection)
   = [(0, - 5), (1, - 2)]"
    by (simp add: renderable_edges_filter upt_2 upt_4 edge_kept_def edge_entry_def scene_simps
        scene_canvas_def)
  show "map (\<lambda>e. (original_edge_index e, avg_z e))
     (qsort compare_renderable_edges
        (renderable_edges scene_uninit scene_canvas
           [vec3_create_cartesian 0 0 (- 5), vec3_create_cartesian 1 0 (- 5),
            vec3_create_cartesian 0 0 (- 2), vec3_create_cartesian 1 0 (- 2)] 4
           [0, 1, 2, 3] 2 mat4_identity mat4_identity scene_projection))
   = [(1, - 2), (0, - 5)]"
    by (simp add: renderable_edges_filter upt_2 upt_4 edge_kept_def edge_entry_def scene_simps
        scene_canvas_def compare_renderable_edges_def)
  show "wireframe_line_calls scene_uninit scene_canvas
        [vec3_create_cartesian 0 0 (- 5), vec3_create_cartesian 1 0 (- 5),
         vec3_create_cartesian 0 0 (- 2), vec3_create_cartesian 1 0 (- 2)] 4
        [0, 1, 2, 3] 2 mat4_identity mat4_identity scene_projection None 0 1
       = [\<lparr>lc_x0 = 2, lc_y0 = 2, lc_x1 = 3, lc_y1 = 2, lc_thickness = 1, lc_intensity = 1\<rparr>,
          \<lparr>lc_x0 = 2, lc_y0 = 2, lc_x1 = 12 / 5, lc_y1 = 2, lc_thickness = 1, lc_intensity = 1\<rparr>]"
    by (rule depth_scene_calls)
qed

section \<open>Properties of the loader\<close>

































end
